theory Spec2Isabelle
  imports Main "HOL-Library.Sublist"
begin

section \<open>Values, dictionaries and errors\<close>

text \<open>
  \<^verbatim>\<open>kit/repository.py\<close> passes symbols, search hits and usages around as
  \<^verbatim>\<open>Dict[str, Any]\<close>. A dictionary is an association list in insertion order (Python
  dictionaries iterate in insertion order); the values are the JSON scalars.
\<close>

datatype pyval = PNone | PBool bool | PInt int | PStr string

type_synonym pydict = "(string \<times> pyval) list"

text \<open>The exceptions of the source, and the failure conditions the specification names.\<close>

datatype error =
    ValueError string
  | FileNotFoundError string
  | IOError string
  | KeyError string
  | AttributeError string
  | NotFound string
  | DecodingFailure string
  | ExternalError string

text \<open>\<^verbatim>\<open>d[k]\<close> raises \<^verbatim>\<open>KeyError\<close> on a missing key; \<^verbatim>\<open>d.get(k)\<close> gives \<^verbatim>\<open>None\<close>.\<close>

definition py_item :: "(string \<times> 'v) list \<Rightarrow> string \<Rightarrow> error + 'v" where
  "py_item d k = (case map_of d k of None \<Rightarrow> Inl (KeyError k) | Some v \<Rightarrow> Inr v)"

definition py_get :: "pydict \<Rightarrow> string \<Rightarrow> pyval" where
  "py_get d k = (case map_of d k of None \<Rightarrow> PNone | Some v \<Rightarrow> v)"

fun truthy :: "pyval \<Rightarrow> bool" where
  "truthy PNone = False"
| "truthy (PBool b) = b"
| "truthy (PInt i) = (i \<noteq> 0)"
| "truthy (PStr s) = (s \<noteq> [])"

text \<open>\<^verbatim>\<open>a or b\<close>: the first operand when it is truthy, the second otherwise.\<close>

definition py_or :: "pyval \<Rightarrow> pyval \<Rightarrow> pyval" where
  "py_or a b = (if truthy a then a else b)"

definition keys :: "(string \<times> 'v) list \<Rightarrow> string list" where
  "keys d = map fst d"

section \<open>The repository and its collaborators\<close>

text \<open>
  An entry of the snapshot on disk. \<^verbatim>\<open>Path.is_file()\<close> holds of the two file
  entries; opening and reading an \<open>UnreadableFile\<close> as UTF-8 text raises.
\<close>

datatype fs_entry = Directory | TextFile string | UnreadableFile

text \<open>
  The symbol map is \<^verbatim>\<open>Dict[str, List[Dict[str, Any]]]\<close>. The repo map and the
  index are \<^verbatim>\<open>Dict[str, Any]\<close> holding a file tree or a symbol map under a key.
\<close>

type_synonym symbol_map = "(string \<times> pydict list) list"

datatype rm_value = TreeV "pydict list" | SymbolsV symbol_map

type_synonym repo_map = "(string \<times> rm_value) list"

text \<open>
  What a file opened by one of the \<^verbatim>\<open>write_*\<close> methods holds: nothing yet (it was
  opened for writing, which truncates it), or the value \<^verbatim>\<open>json.dump\<close> was handed.
\<close>

datatype dumped = Truncated | DumpList "pydict list" | DumpDict repo_map

text \<open>
  The state the methods of \<^verbatim>\<open>Repository\<close> read and change. \<open>files p\<close> is what
  the operating system finds at \<^verbatim>\<open>self.local_path / p\<close>, \<open>in_scope\<close> the ordered
  file listing of the snapshot, \<open>mapper_cache\<close> the memo cell of \<^verbatim>\<open>self.mapper\<close>
  (\<open>None\<close>: not scanned yet), \<open>vector_searcher\<close> the attribute of that name.
  \<open>writable\<close> says which paths \<^verbatim>\<open>open(path, "w")\<close> opens, \<open>written\<close> holds
  the documents written, by the path given to \<^verbatim>\<open>open\<close>.

  The \<^verbatim>\<open>write_*\<close> methods open the caller's own path, which may be a file of
  the snapshot: \<open>same_file p q\<close> says that \<open>p\<close>, as \<^verbatim>\<open>open\<close> resolves it against
  the working directory, and \<open>q\<close>, as the repository reads it at
  \<^verbatim>\<open>self.local_path / q\<close>, name the same file. The listing \<open>in_scope\<close> is fixed
  when the repository is created (specification, section 3); what is on disk at its
  paths is not.
\<close>

record 'vs repository =
  files :: "string \<Rightarrow> fs_entry option"
  in_scope :: "string list"
  mapper_cache :: "symbol_map option"
  vector_searcher :: "'vs option"
  writable :: "string \<Rightarrow> bool"
  written :: "string \<Rightarrow> dumped option"
  same_file :: "string \<Rightarrow> string \<Rightarrow> bool"

text \<open>A chunk of the specification's data model (section 3).\<close>

record chunk =
  chunk_file :: string
  chunk_start :: nat
  chunk_end :: nat
  chunk_content :: string

text \<open>
  The parts of \<^verbatim>\<open>RepoMapper\<close>, \<^verbatim>\<open>CodeSearcher\<close>, \<^verbatim>\<open>ContextExtractor\<close> and
  \<^verbatim>\<open>VectorSearcher\<close> that neither \<^verbatim>\<open>repository.py\<close> nor the specification
  determines are parameters:
  \<^item> \<open>VectorSearcher\<close>: the constructor \<^verbatim>\<open>VectorSearcher(repo, embed_fn, backend, persist_dir)\<close>,
    which may raise;
  \<^item> \<open>rank\<close>: every indexed chunk for a query, best cosine score first, ties in
    first-indexed order (embedding the query may raise);
  \<^item> \<open>parse_file\<close>: the grammar-based parser (path and content to symbols; \<open>None\<close> for
    an unrecognised extension or a parse failure);
  \<^item> \<open>file_tree_of\<close>: the file tree of a file listing;
  \<^item> \<open>glob_match\<close> (pattern, path) and \<open>line_matches\<close> (query, line): the search policy;
  \<^item> \<open>enclosing_symbol\<close>: the chunk of the smallest symbol of a file (path, content)
    that encloses a line, if any;
  \<^item> \<open>context_radius\<close>: half the width of the fallback window.

  \<open>json_text\<close> is the text \<^verbatim>\<open>json.dump(doc, f, indent=2)\<close> writes for a document.
\<close>

record ('vs, 'ef, 'bk) collaborators =
  VectorSearcher :: "'vs repository \<Rightarrow> 'ef \<Rightarrow> 'bk option \<Rightarrow> string option \<Rightarrow> error + 'vs"
  rank :: "'vs \<Rightarrow> string \<Rightarrow> error + pydict list"
  parse_file :: "string \<Rightarrow> string \<Rightarrow> pydict list option"
  file_tree_of :: "(string \<Rightarrow> fs_entry option) \<Rightarrow> string list \<Rightarrow> pydict list"
  glob_match :: "string \<Rightarrow> string \<Rightarrow> bool"
  line_matches :: "string \<Rightarrow> string \<Rightarrow> bool"
  enclosing_symbol :: "string \<Rightarrow> string \<Rightarrow> nat \<Rightarrow> chunk option"
  context_radius :: nat
  json_text :: "dumped \<Rightarrow> string"

section \<open>Semantic search\<close>

text \<open>
  Modelled from the spec: \<^verbatim>\<open>VectorSearcher.search\<close> is not part of the sources.
  Section 4.5: the \<open>topK\<close> highest-scoring chunks, ties broken by first-indexed order;
  \<open>topK \<le> 0\<close> yields an empty result, not an error.
\<close>

definition vs_search ::
  "('vs, 'ef, 'bk) collaborators \<Rightarrow> 'vs \<Rightarrow> string \<Rightarrow> int \<Rightarrow> error + pydict list" where
  "vs_search C vs query top_k =
     (if top_k \<le> 0 then Inr []
      else (case rank C vs query of
              Inl e \<Rightarrow> Inl e
            | Inr hits \<Rightarrow> Inr (take (nat top_k) hits)))"

text \<open>
  \<^verbatim>\<open>Repository.get_vector_searcher\<close>: the result and the repository afterwards.
\<close>

definition get_vector_searcher ::
  "('vs, 'ef, 'bk) collaborators \<Rightarrow> 'vs repository \<Rightarrow> 'ef option \<Rightarrow> 'bk option \<Rightarrow>
     string option \<Rightarrow> (error + 'vs) \<times> 'vs repository" where
  "get_vector_searcher C r embed_fn backend persist_dir =
     (case vector_searcher r of
        None \<Rightarrow>
          (case embed_fn of
             None \<Rightarrow>
               (Inl (ValueError
                  ''embed_fn must be provided on first use (e.g. OpenAI/HF embedding function)''), r)
           | Some f \<Rightarrow>
               (case VectorSearcher C r f backend persist_dir of
                  Inl e \<Rightarrow> (Inl e, r)
                | Inr v \<Rightarrow> (Inr v, r\<lparr>vector_searcher := Some v\<rparr>)))
      | Some v \<Rightarrow> (Inr v, r))"

text \<open>\<^verbatim>\<open>Repository.search_semantic\<close>.\<close>

definition search_semantic ::
  "('vs, 'ef, 'bk) collaborators \<Rightarrow> 'vs repository \<Rightarrow> string \<Rightarrow> int \<Rightarrow> 'ef option \<Rightarrow>
     (error + pydict list) \<times> 'vs repository" where
  "search_semantic C r query top_k embed_fn =
     (case get_vector_searcher C r embed_fn None None of
        (Inl e, r') \<Rightarrow> (Inl e, r')
      | (Inr vs, r') \<Rightarrow> (vs_search C vs query top_k, r'))"

section \<open>The symbol indexer\<close>

text \<open>
  Modelled from the spec: \<^verbatim>\<open>RepoMapper\<close> is not part of the sources. Section 4.1:
  a scan parses every file of the snapshot the parser recognises, in the order of the
  listing; a file with an unrecognised extension or a parse failure (or one that does
  not decode) is skipped and contributes no key.
\<close>

definition scan_repo :: "('vs, 'ef, 'bk) collaborators \<Rightarrow> 'vs repository \<Rightarrow> symbol_map" where
  "scan_repo C r =
     List.map_filter
       (\<lambda>p. case files r p of
               Some (TextFile s) \<Rightarrow> map_option (Pair p) (parse_file C p s)
             | _ \<Rightarrow> None)
       (in_scope r)"

text \<open>
  Modelled from the spec: \<^verbatim>\<open>RepoMapper.get_repo_map\<close>. Section 4.1: builds the
  map once and memoises it; later calls return the cached value. The map is handed
  over under the key \<^verbatim>\<open>"symbols"\<close>, where \<^verbatim>\<open>repository.py\<close> reads it.
\<close>

definition mapper_get_repo_map ::
  "('vs, 'ef, 'bk) collaborators \<Rightarrow> 'vs repository \<Rightarrow> repo_map \<times> 'vs repository" where
  "mapper_get_repo_map C r =
     (case mapper_cache r of
        Some sm \<Rightarrow> ([(''symbols'', SymbolsV sm)], r)
      | None \<Rightarrow>
          (let sm = scan_repo C r
           in ([(''symbols'', SymbolsV sm)], r\<lparr>mapper_cache := Some sm\<rparr>)))"

text \<open>
  Modelled from the spec: \<^verbatim>\<open>RepoMapper.extract_symbols\<close>. Section 4.1: parses that
  single file on demand, always fresh; section 7: an operation addressed at a single
  named file raises to the caller.
\<close>

definition mapper_extract_symbols ::
  "('vs, 'ef, 'bk) collaborators \<Rightarrow> 'vs repository \<Rightarrow> string \<Rightarrow> error + pydict list" where
  "mapper_extract_symbols C r p =
     (case files r p of
        Some (TextFile s) \<Rightarrow>
          (case parse_file C p s of None \<Rightarrow> Inr [] | Some symbs \<Rightarrow> Inr symbs)
      | Some UnreadableFile \<Rightarrow> Inl (DecodingFailure p)
      | _ \<Rightarrow> Inl (NotFound p))"

text \<open>
  Modelled from the spec: \<^verbatim>\<open>RepoMapper.get_file_tree\<close>. Section 4.1: re-derivable
  at any time from the snapshot's file listing; does not use the cached map.
\<close>

definition mapper_get_file_tree ::
  "('vs, 'ef, 'bk) collaborators \<Rightarrow> 'vs repository \<Rightarrow> pydict list" where
  "mapper_get_file_tree C r = file_tree_of C (files r) (in_scope r)"

text \<open>\<^verbatim>\<open>Repository.get_file_tree\<close>.\<close>

definition get_file_tree ::
  "('vs, 'ef, 'bk) collaborators \<Rightarrow> 'vs repository \<Rightarrow> pydict list \<times> 'vs repository" where
  "get_file_tree C r = (mapper_get_file_tree C r, r)"

text \<open>
  \<^verbatim>\<open>.items()\<close> and \<^verbatim>\<open>.values()\<close> of a value of the repo map: a list has neither.
\<close>

fun items :: "rm_value \<Rightarrow> error + symbol_map" where
  "items (SymbolsV m) = Inr m"
| "items (TreeV t) = Inl (AttributeError ''items'')"

fun values_of :: "rm_value \<Rightarrow> error + pydict list list" where
  "values_of (SymbolsV m) = Inr (map snd m)"
| "values_of (TreeV t) = Inl (AttributeError ''values'')"

text \<open>
  The loop of \<^verbatim>\<open>extract_symbols\<close>:
  \<^verbatim>\<open>for file_abs_path_str, symbols_in_file in ...items(): all_symbols.extend(symbols_in_file)\<close>.
\<close>

fun extend_all :: "pydict list \<Rightarrow> symbol_map \<Rightarrow> pydict list" where
  "extend_all all_symbols [] = all_symbols"
| "extend_all all_symbols ((file_abs_path_str, symbols_in_file) # rest) =
     extend_all (all_symbols @ symbols_in_file) rest"

text \<open>\<^verbatim>\<open>Repository.extract_symbols\<close>; \<^verbatim>\<open>repo_map.get("symbols", {})\<close> defaults to no entries.\<close>

definition extract_symbols ::
  "('vs, 'ef, 'bk) collaborators \<Rightarrow> 'vs repository \<Rightarrow> string option \<Rightarrow>
     (error + pydict list) \<times> 'vs repository" where
  "extract_symbols C r file_path =
     (case file_path of
        Some p \<Rightarrow> (mapper_extract_symbols C r p, r)
      | None \<Rightarrow>
          (case mapper_get_repo_map C r of
             (repo_map, r') \<Rightarrow>
               (case (case map_of repo_map ''symbols'' of
                        None \<Rightarrow> Inr []
                      | Some v \<Rightarrow> items v) of
                  Inl e \<Rightarrow> (Inl e, r')
                | Inr its \<Rightarrow> (Inr (extend_all [] its), r'))))"

text \<open>\<^verbatim>\<open>Repository.index\<close>.\<close>

definition index ::
  "('vs, 'ef, 'bk) collaborators \<Rightarrow> 'vs repository \<Rightarrow> (error + repo_map) \<times> 'vs repository" where
  "index C r =
     (case get_file_tree C r of
        (tree, r0) \<Rightarrow>
          (case mapper_get_repo_map C r0 of
             (repo_map, r') \<Rightarrow>
               (case py_item repo_map ''symbols'' of
                  Inl e \<Rightarrow> (Inl e, r')
                | Inr s \<Rightarrow>
                    (Inr [(''file_tree'', TreeV tree), (''files'', TreeV tree), (''symbols'', s)],
                     r'))))"

section \<open>Files, text search and chunking\<close>

fun is_file :: "fs_entry option \<Rightarrow> bool" where
  "is_file (Some (TextFile s)) = True"
| "is_file (Some UnreadableFile) = True"
| "is_file (Some Directory) = False"
| "is_file None = False"

text \<open>
  \<^verbatim>\<open>Repository.get_file_content\<close>. Any failure to open, read or decode the file
  ends in \<^verbatim>\<open>IOError\<close>; the cause the source appends to the message is left out.
\<close>

definition get_file_content ::
  "'vs repository \<Rightarrow> string \<Rightarrow> (error + string) \<times> 'vs repository" where
  "get_file_content r file_path =
     (if \<not> is_file (files r file_path)
      then (Inl (FileNotFoundError (''File not found in repository: '' @ file_path)), r)
      else (case files r file_path of
              Some (TextFile s) \<Rightarrow> (Inr s, r)
            | _ \<Rightarrow> (Inl (IOError (''Error reading file '' @ file_path)), r)))"

text \<open>The lines of a text, each with its terminator, as iterating over a file gives them.\<close>

fun lines_of :: "string \<Rightarrow> string list" where
  "lines_of [] = []"
| "lines_of (c # cs) =
     (if c = CHR 0x0A then [c] # lines_of cs
      else (case lines_of cs of [] \<Rightarrow> [[c]] | l # ls \<Rightarrow> (c # l) # ls))"

definition line_text :: "string \<Rightarrow> string" where
  "line_text l = takeWhile (\<lambda>c. c \<noteq> CHR 0x0A) l"

text \<open>
  Modelled from the spec: \<^verbatim>\<open>CodeSearcher.search_text\<close> is not part of the sources.
  Section 3: a hit has a file path, a 1-based line number and the line content; the
  keys are the ones \<^verbatim>\<open>find_symbol_usages\<close> reads. Section 4.2: every in-scope file
  whose path matches the glob is scanned, a file that does not decode is skipped, and
  hits come in the order of the listing, then by ascending line number.
\<close>

definition hit :: "string \<Rightarrow> nat \<Rightarrow> string \<Rightarrow> pydict" where
  "hit p n l = [(''file'', PStr p), (''line'', PInt (int n)), (''line_content'', PStr (line_text l))]"

fun hits_in_lines ::
  "('vs, 'ef, 'bk) collaborators \<Rightarrow> string \<Rightarrow> string \<Rightarrow> nat \<Rightarrow> string list \<Rightarrow> pydict list" where
  "hits_in_lines C query p n [] = []"
| "hits_in_lines C query p n (l # ls) =
     (if line_matches C query l then [hit p n l] else []) @ hits_in_lines C query p (Suc n) ls"

definition hits_in_file ::
  "('vs, 'ef, 'bk) collaborators \<Rightarrow> 'vs repository \<Rightarrow> string \<Rightarrow> string \<Rightarrow> string \<Rightarrow>
     pydict list" where
  "hits_in_file C r query file_pattern p =
     (if glob_match C file_pattern p
      then (case files r p of
              Some (TextFile s) \<Rightarrow> hits_in_lines C query p 1 (lines_of s)
            | _ \<Rightarrow> [])
      else [])"

definition searcher_search_text ::
  "('vs, 'ef, 'bk) collaborators \<Rightarrow> 'vs repository \<Rightarrow> string \<Rightarrow> string \<Rightarrow> pydict list" where
  "searcher_search_text C r query file_pattern =
     concat (map (hits_in_file C r query file_pattern) (in_scope r))"

text \<open>\<^verbatim>\<open>Repository.search_text\<close>.\<close>

definition search_text ::
  "('vs, 'ef, 'bk) collaborators \<Rightarrow> 'vs repository \<Rightarrow> string \<Rightarrow> string \<Rightarrow>
     pydict list \<times> 'vs repository" where
  "search_text C r query file_pattern = (searcher_search_text C r query file_pattern, r)"

text \<open>
  Modelled from the spec: \<^verbatim>\<open>ContextExtractor.chunk_file_by_lines\<close> is not part of
  the sources. Section 4.3: contiguous, non-overlapping windows of at most
  \<open>maxLines\<close> lines, the final one possibly shorter; \<open>NotFound\<close> if the file does not
  exist. The specification gives no result for \<open>maxLines \<le> 0\<close>; the model yields
  no window there, and nothing below relies on it.
\<close>

function windows :: "nat \<Rightarrow> 'a list \<Rightarrow> 'a list list" where
  "windows n xs = (if n = 0 \<or> xs = [] then [] else take n xs # windows n (drop n xs))"
  by pat_completeness auto
termination
  by (relation "measure (\<lambda>(n, xs). length xs)") auto

declare windows.simps [simp del]

definition context_chunk_file_by_lines ::
  "'vs repository \<Rightarrow> string \<Rightarrow> int \<Rightarrow> error + string list" where
  "context_chunk_file_by_lines r file_path max_lines =
     (case files r file_path of
        Some (TextFile s) \<Rightarrow> Inr (map concat (windows (nat max_lines) (lines_of s)))
      | Some UnreadableFile \<Rightarrow> Inl (DecodingFailure file_path)
      | _ \<Rightarrow> Inl (NotFound file_path))"

text \<open>\<^verbatim>\<open>Repository.chunk_file_by_lines\<close>.\<close>

definition chunk_file_by_lines ::
  "'vs repository \<Rightarrow> string \<Rightarrow> int \<Rightarrow> (error + string list) \<times> 'vs repository" where
  "chunk_file_by_lines r file_path max_lines =
     (context_chunk_file_by_lines r file_path max_lines, r)"

text \<open>
  Modelled from the spec: \<^verbatim>\<open>ContextExtractor.extract_context_around_line\<close> is not
  part of the sources. Section 4.3: null if the line is out of the file's bounds;
  the smallest enclosing symbol's chunk if the line falls within one; otherwise a
  fixed window centred on the line.
\<close>

definition window_chunk :: "string \<Rightarrow> string list \<Rightarrow> nat \<Rightarrow> nat \<Rightarrow> chunk" where
  "window_chunk p ls line radius =
     (let first = max 1 (line - radius); final = min (length ls) (line + radius)
      in \<lparr>chunk_file = p, chunk_start = first, chunk_end = final,
          chunk_content = concat (take (Suc final - first) (drop (first - 1) ls))\<rparr>)"

definition context_extract_context_around_line ::
  "('vs, 'ef, 'bk) collaborators \<Rightarrow> 'vs repository \<Rightarrow> string \<Rightarrow> int \<Rightarrow> error + chunk option" where
  "context_extract_context_around_line C r file_path line =
     (case files r file_path of
        Some (TextFile s) \<Rightarrow>
          (if line < 1 \<or> int (length (lines_of s)) < line then Inr None
           else (case enclosing_symbol C file_path s (nat line) of
                   Some ck \<Rightarrow> Inr (Some ck)
                 | None \<Rightarrow>
                     Inr (Some (window_chunk file_path (lines_of s) (nat line) (context_radius C)))))
      | Some UnreadableFile \<Rightarrow> Inl (DecodingFailure file_path)
      | _ \<Rightarrow> Inl (NotFound file_path))"

text \<open>\<^verbatim>\<open>Repository.extract_context_around_line\<close>.\<close>

definition extract_context_around_line ::
  "('vs, 'ef, 'bk) collaborators \<Rightarrow> 'vs repository \<Rightarrow> string \<Rightarrow> int \<Rightarrow>
     (error + chunk option) \<times> 'vs repository" where
  "extract_context_around_line C r file_path line =
     (context_extract_context_around_line C r file_path line, r)"

section \<open>Symbol usages\<close>

text \<open>
  The condition of the inner loop of \<^verbatim>\<open>find_symbol_usages\<close>:
  \<^verbatim>\<open>sym["name"] == symbol_name and (symbol_type is None or sym["type"] == symbol_type)\<close>,
  evaluated left to right.
\<close>

definition symbol_matches :: "pydict \<Rightarrow> string \<Rightarrow> string option \<Rightarrow> error + bool" where
  "symbol_matches symb symbol_name symbol_type =
     (case py_item symb ''name'' of
        Inl e \<Rightarrow> Inl e
      | Inr n \<Rightarrow>
          (if n = PStr symbol_name
           then (case symbol_type of
                   None \<Rightarrow> Inr True
                 | Some t \<Rightarrow>
                     (case py_item symb ''type'' of
                        Inl e \<Rightarrow> Inl e
                      | Inr ty \<Rightarrow> Inr (ty = PStr t)))
           else Inr False))"

text \<open>The dictionary appended for a matching symbol.\<close>

definition symbol_usage :: "string \<Rightarrow> pydict \<Rightarrow> error + pydict" where
  "symbol_usage file symb =
     (case py_item symb ''type'' of
        Inl e \<Rightarrow> Inl e
      | Inr ty \<Rightarrow>
          (case py_item symb ''name'' of
             Inl e \<Rightarrow> Inl e
           | Inr n \<Rightarrow>
               Inr [(''file'', PStr file), (''type'', ty), (''name'', n),
                    (''line'', py_get symb ''line''), (''context'', py_get symb ''context'')]))"

fun usages_in_file ::
  "string \<Rightarrow> string option \<Rightarrow> string \<Rightarrow> pydict list \<Rightarrow> pydict list \<Rightarrow> error + pydict list" where
  "usages_in_file symbol_name symbol_type file usages [] = Inr usages"
| "usages_in_file symbol_name symbol_type file usages (symb # symbs) =
     (case symbol_matches symb symbol_name symbol_type of
        Inl e \<Rightarrow> Inl e
      | Inr False \<Rightarrow> usages_in_file symbol_name symbol_type file usages symbs
      | Inr True \<Rightarrow>
          (case symbol_usage file symb of
             Inl e \<Rightarrow> Inl e
           | Inr u \<Rightarrow> usages_in_file symbol_name symbol_type file (usages @ [u]) symbs))"

fun usages_in_map ::
  "string \<Rightarrow> string option \<Rightarrow> pydict list \<Rightarrow> symbol_map \<Rightarrow> error + pydict list" where
  "usages_in_map symbol_name symbol_type usages [] = Inr usages"
| "usages_in_map symbol_name symbol_type usages ((file, symbols) # rest) =
     (case usages_in_file symbol_name symbol_type file usages symbols of
        Inl e \<Rightarrow> Inl e
      | Inr usages' \<Rightarrow> usages_in_map symbol_name symbol_type usages' rest)"

text \<open>
  The dictionary appended for a text hit; its context is
  \<^verbatim>\<open>hit.get("line_content") or hit.get("line") or ""\<close>.
\<close>

definition hit_usage :: "pydict \<Rightarrow> pydict" where
  "hit_usage h =
     [(''file'', py_get h ''file''), (''line'', py_get h ''line''),
      (''context'', py_or (py_or (py_get h ''line_content'') (py_get h ''line'')) (PStr []))]"

fun hit_usages :: "pydict list \<Rightarrow> pydict list \<Rightarrow> pydict list" where
  "hit_usages usages [] = usages"
| "hit_usages usages (h # text_hits) = hit_usages (usages @ [hit_usage h]) text_hits"

text \<open>\<^verbatim>\<open>Repository.find_symbol_usages\<close>.\<close>

definition find_symbol_usages ::
  "('vs, 'ef, 'bk) collaborators \<Rightarrow> 'vs repository \<Rightarrow> string \<Rightarrow> string option \<Rightarrow>
     (error + pydict list) \<times> 'vs repository" where
  "find_symbol_usages C r symbol_name symbol_type =
     (case mapper_get_repo_map C r of
        (repo_map, r') \<Rightarrow>
          (case py_item repo_map ''symbols'' of
             Inl e \<Rightarrow> (Inl e, r')
           | Inr v \<Rightarrow>
               (case items v of
                  Inl e \<Rightarrow> (Inl e, r')
                | Inr its \<Rightarrow>
                    (case usages_in_map symbol_name symbol_type [] its of
                       Inl e \<Rightarrow> (Inl e, r')
                     | Inr usages \<Rightarrow>
                         (Inr (hit_usages usages (searcher_search_text C r' symbol_name ''*'')),
                          r')))))"

section \<open>Writing JSON files\<close>

text \<open>
  The file system after the file at \<open>file_path\<close> got a new content: every path of
  the repository that names that file reads the new content from then on.
\<close>

definition overwrite ::
  "'vs repository \<Rightarrow> string \<Rightarrow> string \<Rightarrow> string \<Rightarrow> fs_entry option" where
  "overwrite r file_path content =
     (\<lambda>q. if same_file r file_path q then Some (TextFile content) else files r q)"

text \<open>
  \<^verbatim>\<open>open(file_path, "w")\<close> raises when the path cannot be opened and otherwise
  leaves an empty file there; \<^verbatim>\<open>json.dump(doc, f, indent=2)\<close> then writes the
  document into it (the values dumped here are all serialisable).
\<close>

definition open_w :: "'vs repository \<Rightarrow> string \<Rightarrow> error + 'vs repository" where
  "open_w r file_path =
     (if writable r file_path
      then Inr (r\<lparr>files := overwrite r file_path [],
                 written := (written r)(file_path \<mapsto> Truncated)\<rparr>)
      else Inl (IOError file_path))"

definition json_dump ::
  "('vs, 'ef, 'bk) collaborators \<Rightarrow> 'vs repository \<Rightarrow> string \<Rightarrow> dumped \<Rightarrow> 'vs repository" where
  "json_dump C r file_path doc =
     r\<lparr>files := overwrite r file_path (json_text C doc),
       written := (written r)(file_path \<mapsto> doc)\<rparr>"

text \<open>
  \<^verbatim>\<open>Repository.write_index\<close>: the file is opened first, \<^verbatim>\<open>self.index()\<close> is
  evaluated inside the \<^verbatim>\<open>with\<close> block.
\<close>

definition write_index ::
  "('vs, 'ef, 'bk) collaborators \<Rightarrow> 'vs repository \<Rightarrow> string \<Rightarrow> (error + unit) \<times> 'vs repository" where
  "write_index C r file_path =
     (case open_w r file_path of
        Inl e \<Rightarrow> (Inl e, r)
      | Inr r1 \<Rightarrow>
          (case index C r1 of
             (Inl e, r2) \<Rightarrow> (Inl e, r2)
           | (Inr idx, r2) \<Rightarrow> (Inr (), json_dump C r2 file_path (DumpDict idx))))"

text \<open>
  The list \<^verbatim>\<open>write_symbols\<close> serialises: the symbols given, or
  \<^verbatim>\<open>[s for file_syms in self.index()["symbols"].values() for s in file_syms]\<close>.
\<close>

definition symbols_to_write ::
  "('vs, 'ef, 'bk) collaborators \<Rightarrow> 'vs repository \<Rightarrow> pydict list option \<Rightarrow>
     (error + pydict list) \<times> 'vs repository" where
  "symbols_to_write C r symbols =
     (case symbols of
        Some symbs \<Rightarrow> (Inr symbs, r)
      | None \<Rightarrow>
          (case index C r of
             (Inl e, r') \<Rightarrow> (Inl e, r')
           | (Inr idx, r') \<Rightarrow>
               (case py_item idx ''symbols'' of
                  Inl e \<Rightarrow> (Inl e, r')
                | Inr v \<Rightarrow>
                    (case values_of v of
                       Inl e \<Rightarrow> (Inl e, r')
                     | Inr vals \<Rightarrow> (Inr [s. file_syms \<leftarrow> vals, s \<leftarrow> file_syms], r')))))"

text \<open>\<^verbatim>\<open>Repository.write_symbols\<close>: the list is computed before the file is opened.\<close>

definition write_symbols ::
  "('vs, 'ef, 'bk) collaborators \<Rightarrow> 'vs repository \<Rightarrow> string \<Rightarrow> pydict list option \<Rightarrow>
     (error + unit) \<times> 'vs repository" where
  "write_symbols C r file_path symbols =
     (case symbols_to_write C r symbols of
        (Inl e, r') \<Rightarrow> (Inl e, r')
      | (Inr symbs, r') \<Rightarrow>
          (case open_w r' file_path of
             Inl e \<Rightarrow> (Inl e, r')
           | Inr r1 \<Rightarrow> (Inr (), json_dump C r1 file_path (DumpList symbs))))"

text \<open>\<^verbatim>\<open>Repository.write_file_tree\<close>: the file is opened first.\<close>

definition write_file_tree ::
  "('vs, 'ef, 'bk) collaborators \<Rightarrow> 'vs repository \<Rightarrow> string \<Rightarrow> (error + unit) \<times> 'vs repository" where
  "write_file_tree C r file_path =
     (case open_w r file_path of
        Inl e \<Rightarrow> (Inl e, r)
      | Inr r1 \<Rightarrow>
          (case get_file_tree C r1 of
             (tree, r2) \<Rightarrow> (Inr (), json_dump C r2 file_path (DumpList tree))))"

text \<open>\<^verbatim>\<open>Repository.write_symbol_usages\<close>: the usages are computed before the file is opened.\<close>

definition write_symbol_usages ::
  "('vs, 'ef, 'bk) collaborators \<Rightarrow> 'vs repository \<Rightarrow> string \<Rightarrow> string \<Rightarrow> string option \<Rightarrow>
     (error + unit) \<times> 'vs repository" where
  "write_symbol_usages C r symbol_name file_path symbol_type =
     (case find_symbol_usages C r symbol_name symbol_type of
        (Inl e, r') \<Rightarrow> (Inl e, r')
      | (Inr usages, r') \<Rightarrow>
          (case open_w r' file_path of
             Inl e \<Rightarrow> (Inl e, r')
           | Inr r1 \<Rightarrow> (Inr (), json_dump C r1 file_path (DumpList usages))))"

section \<open>Calls to a repository\<close>

text \<open>
  A call of one of the methods above, and the repository it leaves behind, whether
  it returned or raised. The methods of \<^verbatim>\<open>Repository\<close> left out are the git
  properties, \<^verbatim>\<open>get_abs_path\<close> and \<^verbatim>\<open>get_code_searcher\<close>, which only read, and
  \<^verbatim>\<open>chunk_file_by_symbols\<close> and the factories \<^verbatim>\<open>get_summarizer\<close>,
  \<^verbatim>\<open>get_context_assembler\<close> and \<^verbatim>\<open>get_dependency_analyzer\<close>, which hand over to
  classes outside this file; none of them assigns an attribute in \<^verbatim>\<open>repository.py\<close>.
\<close>

datatype ('ef, 'bk) call =
    GetFileTree
  | ExtractSymbols "string option"
  | SearchText string string
  | ChunkFileByLines string int
  | ExtractContextAroundLine string int
  | GetFileContent string
  | Index
  | GetVectorSearcher "'ef option" "'bk option" "string option"
  | SearchSemantic string int "'ef option"
  | FindSymbolUsages string "string option"
  | WriteIndex string
  | WriteSymbols string "pydict list option"
  | WriteFileTree string
  | WriteSymbolUsages string string "string option"

fun after_call ::
  "('vs, 'ef, 'bk) collaborators \<Rightarrow> 'vs repository \<Rightarrow> ('ef, 'bk) call \<Rightarrow> 'vs repository" where
  "after_call C r GetFileTree = snd (get_file_tree C r)"
| "after_call C r (ExtractSymbols file_path) = snd (extract_symbols C r file_path)"
| "after_call C r (SearchText query file_pattern) = snd (search_text C r query file_pattern)"
| "after_call C r (ChunkFileByLines file_path max_lines) =
     snd (chunk_file_by_lines r file_path max_lines)"
| "after_call C r (ExtractContextAroundLine file_path line) =
     snd (extract_context_around_line C r file_path line)"
| "after_call C r (GetFileContent file_path) = snd (get_file_content r file_path)"
| "after_call C r Index = snd (index C r)"
| "after_call C r (GetVectorSearcher embed_fn backend persist_dir) =
     snd (get_vector_searcher C r embed_fn backend persist_dir)"
| "after_call C r (SearchSemantic query top_k embed_fn) =
     snd (search_semantic C r query top_k embed_fn)"
| "after_call C r (FindSymbolUsages symbol_name symbol_type) =
     snd (find_symbol_usages C r symbol_name symbol_type)"
| "after_call C r (WriteIndex file_path) = snd (write_index C r file_path)"
| "after_call C r (WriteSymbols file_path symbols) = snd (write_symbols C r file_path symbols)"
| "after_call C r (WriteFileTree file_path) = snd (write_file_tree C r file_path)"
| "after_call C r (WriteSymbolUsages symbol_name file_path symbol_type) =
     snd (write_symbol_usages C r symbol_name file_path symbol_type)"

text \<open>A sequence of calls, one after the other.\<close>

definition after_calls ::
  "('vs, 'ef, 'bk) collaborators \<Rightarrow> 'vs repository \<Rightarrow> ('ef, 'bk) call list \<Rightarrow> 'vs repository" where
  "after_calls C r cs = foldl (after_call C) r cs"

section \<open>The repo map of a repository\<close>

text \<open>
  The symbol map \<^verbatim>\<open>get_repo_map\<close> hands over in a state: the cached one, or the
  one a full scan builds when none is cached.
\<close>

definition repo_symbols :: "('vs, 'ef, 'bk) collaborators \<Rightarrow> 'vs repository \<Rightarrow> symbol_map" where
  "repo_symbols C r = (case mapper_cache r of None \<Rightarrow> scan_repo C r | Some sm \<Rightarrow> sm)"

section \<open>A small repository\<close>

text \<open>
  A snapshot of four files and a directory, with collaborators simple enough to
  evaluate: the parser knows one function of \<^verbatim>\<open>a.py\<close>, a query matches a line
  that contains it, and the glob \<^verbatim>\<open>*\<close> matches every path. The working directory
  is the repository's root, so a path names the same file for reading and for
  writing. The listing leaves \<^verbatim>\<open>big.txt\<close> out, although the file is on disk.
\<close>

fun contains :: "string \<Rightarrow> string \<Rightarrow> bool" where
  "contains q [] = (q = [])"
| "contains q (c # cs) = (prefix q (c # cs) \<or> contains q cs)"

definition demo_line :: string where
  "demo_line = ''x'' @ [CHR 0x0A]"

definition demo_big :: string where
  "demo_big = concat (replicate 120 demo_line)"

definition demo_files :: "string \<Rightarrow> fs_entry option" where
  "demo_files p =
     (if p = ''a.py''
      then Some (TextFile (''def foo():'' @ [CHR 0x0A] @ ''    return bar()'' @ [CHR 0x0A]))
      else if p = ''notes.txt'' then Some (TextFile (''call foo here'' @ [CHR 0x0A] @ ''nothing''))
      else if p = ''big.txt'' then Some (TextFile demo_big)
      else if p = ''logo.png'' then Some UnreadableFile
      else if p = ''docs'' then Some Directory
      else None)"

definition demo_repo :: "nat repository" where
  "demo_repo =
     \<lparr>files = demo_files, in_scope = [''a.py'', ''logo.png'', ''notes.txt''],
      mapper_cache = None, vector_searcher = None,
      writable = (\<lambda>p. p \<noteq> []), written = Map.empty, same_file = (\<lambda>p q. p = q)\<rparr>"

definition demo_symbol :: pydict where
  "demo_symbol = [(''name'', PStr ''foo''), (''type'', PStr ''function''), (''line'', PInt 1)]"

definition demo_collaborators :: "(nat, unit, unit) collaborators" where
  "demo_collaborators =
     \<lparr>VectorSearcher =
        (\<lambda>r f b p. if p = Some ''/'' then Inl (ExternalError ''backend'') else Inr 1),
      rank = (\<lambda>v q. Inr [[(''file'', PStr ''a.py'')], [(''file'', PStr ''notes.txt'')]]),
      parse_file = (\<lambda>p s. if p = ''a.py'' then Some [demo_symbol] else None),
      file_tree_of = (\<lambda>fs ps. map (\<lambda>p. [(''path'', PStr p)]) ps),
      glob_match = (\<lambda>pat p. pat = ''*'' \<or> pat = p),
      line_matches = contains,
      enclosing_symbol = (\<lambda>p s n. None),
      context_radius = 10,
      json_text = (\<lambda>doc. ''[]'')\<rparr>"

text \<open>The usages of \<^verbatim>\<open>foo\<close> in that repository: one symbol and two text hits.\<close>

definition demo_usages :: "pydict list" where
  "demo_usages =
     [[(''file'', PStr ''a.py''), (''type'', PStr ''function''), (''name'', PStr ''foo''),
       (''line'', PInt 1), (''context'', PNone)],
      [(''file'', PStr ''a.py''), (''line'', PInt 1), (''context'', PStr ''def foo():'')],
      [(''file'', PStr ''notes.txt''), (''line'', PInt 1), (''context'', PStr ''call foo here'')]]"

section \<open>Facts about the loops and the caches\<close>

subsection \<open>The repo map\<close>

lemma extend_all_concat: "extend_all acc its = acc @ concat (map snd its)"
  by (induction its arbitrary: acc) auto

lemma mapper_get_repo_map_eq:
  "mapper_get_repo_map C r =
     ([(''symbols'', SymbolsV (repo_symbols C r))], r\<lparr>mapper_cache := Some (repo_symbols C r)\<rparr>)"
  by (cases "mapper_cache r") (simp_all add: mapper_get_repo_map_def repo_symbols_def Let_def)

lemma extract_symbols_None_eq:
  "extract_symbols C r None =
     (Inr (concat (map snd (repo_symbols C r))), r\<lparr>mapper_cache := Some (repo_symbols C r)\<rparr>)"
  by (simp add: extract_symbols_def mapper_get_repo_map_eq extend_all_concat)

lemma index_eq:
  "index C r =
     (Inr [(''file_tree'', TreeV (mapper_get_file_tree C r)),
           (''files'', TreeV (mapper_get_file_tree C r)),
           (''symbols'', SymbolsV (repo_symbols C r))],
      r\<lparr>mapper_cache := Some (repo_symbols C r)\<rparr>)"
  by (simp add: index_def get_file_tree_def mapper_get_repo_map_eq py_item_def)

lemma symbols_to_write_None_eq:
  "symbols_to_write C r None =
     (Inr (concat (map snd (repo_symbols C r))), r\<lparr>mapper_cache := Some (repo_symbols C r)\<rparr>)"
  by (simp add: symbols_to_write_def index_eq py_item_def)

subsection \<open>Usage entries\<close>

lemma usages_in_file_keys:
  "usages_in_file n t f acc symbs = Inr us \<Longrightarrow>
     \<exists>new. us = acc @ new \<and> (\<forall>u\<in>set new. keys u = [''file'', ''type'', ''name'', ''line'', ''context''])"
proof (induction symbs arbitrary: acc)
  case Nil
  then show ?case by simp
next
  case (Cons symb symbs)
  show ?case
  proof (cases "symbol_matches symb n t")
    case (Inl e)
    with Cons.prems show ?thesis by simp
  next
    case (Inr b)
    show ?thesis
    proof (cases b)
      case False
      with Inr Cons.prems Cons.IH show ?thesis by simp
    next
      case True
      with Inr Cons.prems obtain u where u: "symbol_usage f symb = Inr u"
        and rest: "usages_in_file n t f (acc @ [u]) symbs = Inr us"
        by (auto split: sum.splits)
      from u have ku: "keys u = [''file'', ''type'', ''name'', ''line'', ''context'']"
        by (auto simp: symbol_usage_def keys_def split: sum.splits)
      from Cons.IH[OF rest] obtain new where "us = (acc @ [u]) @ new"
        and "\<forall>u\<in>set new. keys u = [''file'', ''type'', ''name'', ''line'', ''context'']"
        by blast
      with ku show ?thesis by (intro exI[of _ "u # new"]) simp
    qed
  qed
qed

lemma usages_in_map_keys:
  "usages_in_map n t acc its = Inr us \<Longrightarrow>
     \<exists>new. us = acc @ new \<and> (\<forall>u\<in>set new. keys u = [''file'', ''type'', ''name'', ''line'', ''context''])"
proof (induction its arbitrary: acc)
  case Nil
  then show ?case by simp
next
  case (Cons it its)
  obtain f symbs where it: "it = (f, symbs)" by (cases it)
  with Cons.prems obtain mid where mid: "usages_in_file n t f acc symbs = Inr mid"
    and rest: "usages_in_map n t mid its = Inr us"
    by (auto split: sum.splits)
  from usages_in_file_keys[OF mid] obtain new1 where n1: "mid = acc @ new1"
    "\<forall>u\<in>set new1. keys u = [''file'', ''type'', ''name'', ''line'', ''context'']" by blast
  from Cons.IH[OF rest] obtain new2 where n2: "us = mid @ new2"
    "\<forall>u\<in>set new2. keys u = [''file'', ''type'', ''name'', ''line'', ''context'']" by blast
  from n1 n2 show ?case by (intro exI[of _ "new1 @ new2"]) auto
qed

lemma hit_usages_map: "hit_usages acc hs = acc @ map hit_usage hs"
  by (induction hs arbitrary: acc) auto

lemma keys_hit_usage: "keys (hit_usage h) = [''file'', ''line'', ''context'']"
  by (simp add: hit_usage_def keys_def)

subsection \<open>Lines and windows\<close>

lemma concat_map_concat: "concat (map concat xss) = concat (concat xss)"
  by (induction xss) auto

lemma concat_lines_of: "concat (lines_of s) = s"
  by (induction s) (auto split: list.splits)

lemma concat_windows: "0 < n \<Longrightarrow> concat (windows n xs) = xs"
  by (induction n xs rule: windows.induct) (subst windows.simps, simp)

lemma windows_bounds: "w \<in> set (windows n xs) \<Longrightarrow> w \<noteq> [] \<and> length w \<le> n"
proof (induction n xs rule: windows.induct)
  case (1 n xs)
  show ?case
  proof (cases "n = 0 \<or> xs = []")
    case True
    with "1.prems" show ?thesis by (subst (asm) windows.simps) simp
  next
    case False
    with "1.prems" have "w = take n xs \<or> w \<in> set (windows n (drop n xs))"
      by (subst (asm) windows.simps) simp
    with False "1.IH" show ?thesis by auto
  qed
qed

lemma windows_full: "w \<in> set (butlast (windows n xs)) \<Longrightarrow> length w = n"
proof (induction n xs rule: windows.induct)
  case (1 n xs)
  show ?case
  proof (cases "n = 0 \<or> xs = []")
    case True
    with "1.prems" show ?thesis by (subst (asm) windows.simps) simp
  next
    case False
    show ?thesis
    proof (cases "windows n (drop n xs) = []")
      case True
      with False "1.prems" show ?thesis by (subst (asm) windows.simps) simp
    next
      case nonempty: False
      then have "drop n xs \<noteq> []" by (subst (asm) windows.simps) auto
      then have full: "length (take n xs) = n" by simp
      from False nonempty "1.prems"
      have "w = take n xs \<or> w \<in> set (butlast (windows n (drop n xs)))"
        by (subst (asm) windows.simps) simp
      with full False "1.IH" show ?thesis by auto
    qed
  qed
qed

lemma windows_lengths:
  "0 < n \<Longrightarrow>
     map length (windows n xs) =
       replicate (length xs div n) n @ (if length xs mod n = 0 then [] else [length xs mod n])"
proof (induction n xs rule: windows.induct)
  case (1 n xs)
  show ?case
  proof (cases "xs = []")
    case True
    then show ?thesis by (subst windows.simps) simp
  next
    case False
    show ?thesis
    proof (cases "length xs < n")
      case True
      with False "1.prems" have "windows n xs = [xs]"
        by (subst windows.simps, subst windows.simps) simp
      with True False show ?thesis by simp
    next
      case ge: False
      with "1.prems" have d: "length xs div n = Suc ((length xs - n) div n)"
        and m: "length xs mod n = (length xs - n) mod n"
        by (simp_all add: le_div_geq le_mod_geq)
      from False "1.prems" have w: "windows n xs = take n xs # windows n (drop n xs)"
        by (subst windows.simps) simp
      from False "1.prems" "1.IH"
      have ih: "map length (windows n (drop n xs)) =
          replicate (length (drop n xs) div n) n @
            (if length (drop n xs) mod n = 0 then [] else [length (drop n xs) mod n])"
        by simp
      from ge have "length (take n xs) = n" by simp
      with w ih d m show ?thesis by simp
    qed
  qed
qed

subsection \<open>What a call leaves unchanged\<close>

text \<open>
  No call changes the listing, and none but the first construction of the vector
  searcher changes \<open>vector_searcher\<close>. The files on disk are not in this list: a
  \<^verbatim>\<open>write_*\<close> method may overwrite one of them.
\<close>

lemma snd_find_symbol_usages:
  "snd (find_symbol_usages C r n t) = r\<lparr>mapper_cache := Some (repo_symbols C r)\<rparr>"
  by (simp add: find_symbol_usages_def mapper_get_repo_map_eq py_item_def split: sum.splits)

lemma snd_get_vector_searcher:
  "snd (get_vector_searcher C r e b p) = r \<or>
   (\<exists>v. vector_searcher r = None \<and> snd (get_vector_searcher C r e b p) = r\<lparr>vector_searcher := Some v\<rparr>)"
  by (auto simp: get_vector_searcher_def split: option.splits sum.splits)

lemma snd_search_semantic:
  "snd (search_semantic C r q k e) = snd (get_vector_searcher C r e None None)"
  by (cases "get_vector_searcher C r e None None")
     (simp add: search_semantic_def split: sum.splits)

lemma snd_get_file_content: "snd (get_file_content r p) = r"
  by (simp add: get_file_content_def split: option.splits fs_entry.splits)

lemma after_call_frame:
  "in_scope (after_call C r c) = in_scope r \<and>
   (vector_searcher (after_call C r c) = vector_searcher r \<or> vector_searcher r = None)"
proof (cases c)
  case GetFileTree
  then show ?thesis by (simp add: get_file_tree_def)
next
  case (ExtractSymbols fp)
  show ?thesis
  proof (cases fp)
    case None
    with ExtractSymbols show ?thesis by (simp add: extract_symbols_None_eq)
  next
    case (Some p)
    with ExtractSymbols show ?thesis by (simp add: extract_symbols_def)
  qed
next
  case (SearchText q p)
  then show ?thesis by (simp add: search_text_def)
next
  case (ChunkFileByLines p n)
  then show ?thesis by (simp add: chunk_file_by_lines_def)
next
  case (ExtractContextAroundLine p n)
  then show ?thesis by (simp add: extract_context_around_line_def)
next
  case (GetFileContent p)
  then show ?thesis by (simp add: snd_get_file_content)
next
  case Index
  then show ?thesis by (simp add: index_eq)
next
  case (GetVectorSearcher e b p)
  then show ?thesis using snd_get_vector_searcher[of C r e b p] by auto
next
  case (SearchSemantic q k e)
  then show ?thesis using snd_get_vector_searcher[of C r e None None]
    by (auto simp: snd_search_semantic)
next
  case (FindSymbolUsages n t)
  then show ?thesis by (simp add: snd_find_symbol_usages)
next
  case (WriteIndex p)
  then show ?thesis by (simp add: write_index_def open_w_def json_dump_def index_eq)
next
  case (WriteSymbols p symbols)
  show ?thesis
  proof (cases symbols)
    case None
    with WriteSymbols show ?thesis
      by (simp add: write_symbols_def symbols_to_write_None_eq open_w_def json_dump_def)
  next
    case (Some symbs)
    with WriteSymbols show ?thesis
      by (simp add: write_symbols_def symbols_to_write_def open_w_def json_dump_def)
  qed
next
  case (WriteFileTree p)
  then show ?thesis by (simp add: write_file_tree_def open_w_def json_dump_def get_file_tree_def)
next
  case (WriteSymbolUsages n p t)
  obtain res where run:
    "find_symbol_usages C r n t = (res, r\<lparr>mapper_cache := Some (repo_symbols C r)\<rparr>)"
    by (metis prod.collapse snd_find_symbol_usages)
  show ?thesis
  proof (cases res)
    case (Inl e)
    with run WriteSymbolUsages show ?thesis by (simp add: write_symbol_usages_def)
  next
    case (Inr usages)
    with run WriteSymbolUsages show ?thesis
      by (simp add: write_symbol_usages_def open_w_def json_dump_def)
  qed
qed

lemma after_call_keeps_vector_searcher:
  "vector_searcher r = Some v \<Longrightarrow> vector_searcher (after_call C r c) = Some v"
  using after_call_frame[of C r c] by auto

lemma after_calls_keeps_vector_searcher:
  "vector_searcher r = Some v \<Longrightarrow> vector_searcher (after_calls C r cs) = Some v"
  unfolding after_calls_def
  by (induction cs arbitrary: r) (simp_all add: after_call_keeps_vector_searcher)

subsection \<open>Text search reads the snapshot only\<close>

lemma searcher_search_text_snapshot:
  assumes "files r2 = files r1" and "in_scope r2 = in_scope r1"
  shows "searcher_search_text C r2 query file_pattern = searcher_search_text C r1 query file_pattern"
proof -
  have "hits_in_file C r2 query file_pattern = hits_in_file C r1 query file_pattern"
    by (rule ext) (simp add: hits_in_file_def assms(1))
  with assms(2) show ?thesis by (simp add: searcher_search_text_def)
qed

lemma searcher_search_text_cache:
  "searcher_search_text C (r\<lparr>mapper_cache := m\<rparr>) query file_pattern =
     searcher_search_text C r query file_pattern"
  by (rule searcher_search_text_snapshot) simp_all

subsection \<open>The small repository, evaluated\<close>

lemma lines_of_replicate: "lines_of (concat (replicate k demo_line)) = replicate k demo_line"
  by (induction k) (simp_all add: demo_line_def)

lemma demo_scan: "scan_repo demo_collaborators demo_repo = [(''a.py'', [demo_symbol])]"
  by (simp add: scan_repo_def demo_repo_def demo_files_def demo_collaborators_def
      List.map_filter_simps)

lemma demo_hits:
  "searcher_search_text demo_collaborators demo_repo ''foo'' ''*'' =
     [[(''file'', PStr ''a.py''), (''line'', PInt 1), (''line_content'', PStr ''def foo():'')],
      [(''file'', PStr ''notes.txt''), (''line'', PInt 1),
       (''line_content'', PStr ''call foo here'')]]"
  by (simp add: searcher_search_text_def hits_in_file_def hit_def line_text_def demo_repo_def
      demo_files_def demo_collaborators_def)

lemma demo_find_symbol_usages:
  "fst (find_symbol_usages demo_collaborators demo_repo ''foo'' None) = Inr demo_usages"
proof -
  have c: "mapper_cache demo_repo = None" by (simp add: demo_repo_def)
  have m: "repo_symbols demo_collaborators demo_repo = [(''a.py'', [demo_symbol])]"
    by (simp add: repo_symbols_def c demo_scan)
  show ?thesis
    by (simp add: find_symbol_usages_def mapper_get_repo_map_eq m py_item_def
        searcher_search_text_cache demo_hits demo_symbol_def demo_usages_def symbol_matches_def
        symbol_usage_def py_get_def hit_usage_def py_or_def)
qed

text \<open>A document written over a file of the snapshot is what the repository reads next.\<close>

lemma demo_write_is_read_back:
  "fst (get_file_content (snd (write_file_tree demo_collaborators demo_repo ''notes.txt''))
     ''notes.txt'') = Inr ''[]''"
  by (simp add: write_file_tree_def open_w_def json_dump_def overwrite_def get_file_tree_def
      get_file_content_def demo_repo_def demo_collaborators_def)

section \<open>The claims\<close>

subsection \<open>Semantic search\<close>

text \<open>
  Claim C1. While no vector searcher has been constructed, \<^verbatim>\<open>get_vector_searcher\<close>
  without an embedding function raises a \<^verbatim>\<open>ValueError\<close> (the configuration error
  of the specification) and leaves the repository as it was, \<open>vector_searcher\<close>
  still unset; \<^verbatim>\<open>search_semantic\<close>, which calls it, does the same. With an
  embedding function, the searcher the constructor returns is handed back and
  stored; an exception of the constructor passes through and nothing is stored.
\<close>

theorem first_use_requires_embed_fn:
  assumes "vector_searcher r = None"
  shows "get_vector_searcher C r None backend persist_dir =
           (Inl (ValueError
              ''embed_fn must be provided on first use (e.g. OpenAI/HF embedding function)''), r) \<and>
         search_semantic C r query top_k None =
           (Inl (ValueError
              ''embed_fn must be provided on first use (e.g. OpenAI/HF embedding function)''), r) \<and>
         (\<forall>f v. VectorSearcher C r f backend persist_dir = Inr v \<longrightarrow>
            get_vector_searcher C r (Some f) backend persist_dir =
              (Inr v, r\<lparr>vector_searcher := Some v\<rparr>)) \<and>
         (\<forall>f v. VectorSearcher C r f None None = Inr v \<longrightarrow>
            snd (search_semantic C r query top_k (Some f)) = r\<lparr>vector_searcher := Some v\<rparr>) \<and>
         (\<forall>f e. VectorSearcher C r f backend persist_dir = Inl e \<longrightarrow>
            get_vector_searcher C r (Some f) backend persist_dir = (Inl e, r))"
  using assms by (simp add: get_vector_searcher_def search_semantic_def)

theorem first_use_requires_embed_fn_witness:
  "vector_searcher demo_repo = None \<and>
   get_vector_searcher demo_collaborators demo_repo None None None =
     (Inl (ValueError
        ''embed_fn must be provided on first use (e.g. OpenAI/HF embedding function)''), demo_repo) \<and>
   search_semantic demo_collaborators demo_repo ''foo'' 5 None =
     (Inl (ValueError
        ''embed_fn must be provided on first use (e.g. OpenAI/HF embedding function)''), demo_repo) \<and>
   VectorSearcher demo_collaborators demo_repo () None None = Inr 1 \<and>
   get_vector_searcher demo_collaborators demo_repo (Some ()) None None =
     (Inr 1, demo_repo\<lparr>vector_searcher := Some 1\<rparr>) \<and>
   snd (search_semantic demo_collaborators demo_repo ''foo'' 5 (Some ())) =
     demo_repo\<lparr>vector_searcher := Some 1\<rparr> \<and>
   VectorSearcher demo_collaborators demo_repo () None (Some ''/'') = Inl (ExternalError ''backend'') \<and>
   get_vector_searcher demo_collaborators demo_repo (Some ()) None (Some ''/'') =
     (Inl (ExternalError ''backend''), demo_repo)"
proof -
  have unset: "vector_searcher demo_repo = None" by (simp add: demo_repo_def)
  have ok: "VectorSearcher demo_collaborators demo_repo () None None = Inr 1"
    and bad: "VectorSearcher demo_collaborators demo_repo () None (Some ''/'') =
      Inl (ExternalError ''backend'')"
    by (simp_all add: demo_collaborators_def)
  from first_use_requires_embed_fn[OF unset, of demo_collaborators None None "''foo''" 5]
       first_use_requires_embed_fn[OF unset, of demo_collaborators None "Some ''/''" "''foo''" 5]
       unset ok bad
  show ?thesis by simp
qed

text \<open>
  Claim C9. Once \<open>vector_searcher\<close> holds a searcher, \<^verbatim>\<open>get_vector_searcher\<close>
  returns that searcher and changes nothing, whatever \<^verbatim>\<open>embed_fn\<close>, \<^verbatim>\<open>backend\<close>
  and \<^verbatim>\<open>persist_dir\<close> it is given; and every call of a method of
  \<^verbatim>\<open>Repository\<close> modelled above, returning or raising, and every sequence of
  such calls, leaves that searcher in place.
\<close>

theorem stored_vector_searcher_is_kept:
  assumes "vector_searcher r = Some v"
  shows "get_vector_searcher C r embed_fn backend persist_dir = (Inr v, r) \<and>
         vector_searcher (after_call C r c) = Some v \<and>
         vector_searcher (after_calls C r cs) = Some v \<and>
         get_vector_searcher C (after_calls C r cs) embed_fn backend persist_dir =
           (Inr v, after_calls C r cs)"
proof -
  have now: "get_vector_searcher C r' embed_fn backend persist_dir = (Inr v, r')"
    if "vector_searcher r' = Some v" for r'
    using that by (simp add: get_vector_searcher_def)
  from assms have one: "vector_searcher (after_call C r c) = Some v"
    by (rule after_call_keeps_vector_searcher)
  from assms have many: "vector_searcher (after_calls C r cs) = Some v"
    by (rule after_calls_keeps_vector_searcher)
  from now[OF assms] one many now[OF many] show ?thesis by simp
qed

theorem stored_vector_searcher_is_kept_witness:
  "vector_searcher (demo_repo\<lparr>vector_searcher := Some 7\<rparr>) = Some 7 \<and>
   get_vector_searcher demo_collaborators (demo_repo\<lparr>vector_searcher := Some 7\<rparr>) (Some ()) None
       (Some ''/'') =
     (Inr 7, demo_repo\<lparr>vector_searcher := Some 7\<rparr>) \<and>
   vector_searcher
     (after_call demo_collaborators (demo_repo\<lparr>vector_searcher := Some 7\<rparr>)
        (SearchSemantic ''foo'' 5 (Some ()))) = Some 7 \<and>
   vector_searcher
     (after_calls demo_collaborators (demo_repo\<lparr>vector_searcher := Some 7\<rparr>)
        [Index, GetVectorSearcher (Some ()) None None, WriteSymbols ''out.json'' None,
         FindSymbolUsages ''foo'' None]) = Some 7"
proof -
  have stored: "vector_searcher (demo_repo\<lparr>vector_searcher := Some 7\<rparr>) = Some 7" by simp
  from stored_vector_searcher_is_kept[OF stored, of demo_collaborators "Some ()" None "Some ''/''"
      "SearchSemantic ''foo'' 5 (Some ())"
      "[Index, GetVectorSearcher (Some ()) None None, WriteSymbols ''out.json'' None,
        FindSymbolUsages ''foo'' None]"]
  show ?thesis by simp
qed

text \<open>
  Claim C5. Whenever \<^verbatim>\<open>get_vector_searcher\<close> yields a searcher (one is stored,
  or an embedding function is given and the constructor returns), semantic search
  with \<open>top_k \<le> 0\<close> returns the empty list and raises nothing.
\<close>

theorem nonpositive_top_k_gives_no_hits:
  assumes "top_k \<le> 0" and "fst (get_vector_searcher C r embed_fn None None) = Inr vs"
  shows "vs_search C vs query top_k = Inr [] \<and>
         fst (search_semantic C r query top_k embed_fn) = Inr []"
proof -
  from assms(1) have empty: "vs_search C vs query top_k = Inr []"
    by (simp add: vs_search_def)
  obtain res r' where run: "get_vector_searcher C r embed_fn None None = (res, r')"
    by (cases "get_vector_searcher C r embed_fn None None")
  with assms(2) have "res = Inr vs" by simp
  with run empty show ?thesis by (simp add: search_semantic_def)
qed

theorem nonpositive_top_k_gives_no_hits_witness:
  "(0::int) \<le> 0 \<and> (-3::int) \<le> 0 \<and>
   fst (get_vector_searcher demo_collaborators demo_repo (Some ()) None None) = Inr 1 \<and>
   fst (search_semantic demo_collaborators demo_repo ''foo'' 0 (Some ())) = Inr [] \<and>
   fst (search_semantic demo_collaborators demo_repo ''foo'' (-3) (Some ())) = Inr [] \<and>
   fst (search_semantic demo_collaborators demo_repo ''foo'' 1 (Some ())) =
     Inr [[(''file'', PStr ''a.py'')]]"
proof -
  have vs: "fst (get_vector_searcher demo_collaborators demo_repo (Some ()) None None) = Inr 1"
    by (simp add: get_vector_searcher_def demo_repo_def demo_collaborators_def)
  have one: "fst (search_semantic demo_collaborators demo_repo ''foo'' 1 (Some ())) =
      Inr [[(''file'', PStr ''a.py'')]]"
    by (simp add: search_semantic_def get_vector_searcher_def vs_search_def demo_repo_def
        demo_collaborators_def)
  from nonpositive_top_k_gives_no_hits[OF _ vs, of 0 "''foo''"]
       nonpositive_top_k_gives_no_hits[OF _ vs, of "-3" "''foo''"] vs one
  show ?thesis by simp
qed

subsection \<open>Symbol usages\<close>

text \<open>
  Claim C3, as amended. The claim says every entry of \<^verbatim>\<open>find_symbol_usages\<close>
  carries \<^verbatim>\<open>file\<close>, \<^verbatim>\<open>type\<close>, \<^verbatim>\<open>name\<close>, \<^verbatim>\<open>line\<close> and \<^verbatim>\<open>context\<close>. The
  code gives those five keys to the entries it derives from the symbol map only; an
  entry derived from a text hit has exactly \<^verbatim>\<open>file\<close>, \<^verbatim>\<open>line\<close> and \<^verbatim>\<open>context\<close>.
  The result is the symbol entries followed by one entry per hit of
  \<^verbatim>\<open>search_text(symbol_name)\<close>.
\<close>

theorem find_symbol_usages_fields:
  assumes "fst (find_symbol_usages C r symbol_name symbol_type) = Inr usages"
  shows "\<exists>symbol_entries hit_entries.
           usages = symbol_entries @ hit_entries \<and>
           (\<forall>u\<in>set symbol_entries. keys u = [''file'', ''type'', ''name'', ''line'', ''context'']) \<and>
           length hit_entries = length (fst (search_text C r symbol_name ''*'')) \<and>
           (\<forall>u\<in>set hit_entries. keys u = [''file'', ''line'', ''context''])"
proof -
  let ?r' = "r\<lparr>mapper_cache := Some (repo_symbols C r)\<rparr>"
  let ?hits = "searcher_search_text C r symbol_name ''*''"
  have same_hits: "searcher_search_text C ?r' symbol_name ''*'' = ?hits"
    by (rule searcher_search_text_cache)
  from assms obtain us where us: "usages_in_map symbol_name symbol_type [] (repo_symbols C r) = Inr us"
    and res: "usages = hit_usages us ?hits"
    by (auto simp: find_symbol_usages_def mapper_get_repo_map_eq py_item_def same_hits
        split: sum.splits)
  from usages_in_map_keys[OF us]
  have five: "\<forall>u\<in>set us. keys u = [''file'', ''type'', ''name'', ''line'', ''context'']" by simp
  have three: "\<forall>u\<in>set (map hit_usage ?hits). keys u = [''file'', ''line'', ''context'']"
    by (simp add: keys_hit_usage)
  have len: "length (map hit_usage ?hits) = length (fst (search_text C r symbol_name ''*''))"
    by (simp add: search_text_def)
  from res have split: "usages = us @ map hit_usage ?hits" by (simp add: hit_usages_map)
  show ?thesis
    by (rule exI[of _ us], rule exI[of _ "map hit_usage ?hits"]) (intro conjI split five len three)
qed

theorem find_symbol_usages_fields_witness:
  "fst (find_symbol_usages demo_collaborators demo_repo ''foo'' None) = Inr demo_usages \<and>
   (\<exists>symbol_entries hit_entries.
      demo_usages = symbol_entries @ hit_entries \<and>
      (\<forall>u\<in>set symbol_entries. keys u = [''file'', ''type'', ''name'', ''line'', ''context'']) \<and>
      length hit_entries = 2 \<and>
      (\<forall>u\<in>set hit_entries. keys u = [''file'', ''line'', ''context'']))"
proof -
  from find_symbol_usages_fields[OF demo_find_symbol_usages]
  obtain se he where parts: "demo_usages = se @ he"
    and five: "\<forall>u\<in>set se. keys u = [''file'', ''type'', ''name'', ''line'', ''context'']"
    and len: "length he = length (fst (search_text demo_collaborators demo_repo ''foo'' ''*''))"
    and three: "\<forall>u\<in>set he. keys u = [''file'', ''line'', ''context'']"
    by blast
  from len have two: "length he = 2" by (simp add: search_text_def demo_hits)
  from parts five two three
  have "\<exists>symbol_entries hit_entries.
      demo_usages = symbol_entries @ hit_entries \<and>
      (\<forall>u\<in>set symbol_entries. keys u = [''file'', ''type'', ''name'', ''line'', ''context'']) \<and>
      length hit_entries = 2 \<and>
      (\<forall>u\<in>set hit_entries. keys u = [''file'', ''line'', ''context''])"
    by blast
  with demo_find_symbol_usages show ?thesis by (rule conjI)
qed

text \<open>
  The claim as stated fails in the small repository: of the three usages of
  \<^verbatim>\<open>foo\<close>, the two that come from text hits have neither \<^verbatim>\<open>type\<close> nor
  \<^verbatim>\<open>name\<close>.
\<close>

theorem text_hit_usage_lacks_type_and_name:
  "fst (find_symbol_usages demo_collaborators demo_repo ''foo'' None) = Inr demo_usages \<and>
   map keys demo_usages =
     [[''file'', ''type'', ''name'', ''line'', ''context''],
      [''file'', ''line'', ''context''],
      [''file'', ''line'', ''context'']]"
  by (simp add: demo_find_symbol_usages) (simp add: demo_usages_def keys_def)

subsection \<open>Chunking by lines\<close>

text \<open>
  Claim C6. For an existing text file and \<open>max_lines > 0\<close>,
  \<^verbatim>\<open>chunk_file_by_lines\<close> returns the file cut into windows of lines: laid end to
  end the windows are the file's lines (contiguous, no overlap, nothing left out), and
  the chunks the file's text; no window is empty or longer than \<open>max_lines\<close>, and every
  window but the last has exactly \<open>max_lines\<close> lines. A file of 120 lines with
  \<open>max_lines = 50\<close> gives three windows of 50, 50 and 20 lines.
\<close>

theorem chunk_file_by_lines_windows:
  assumes "files r file_path = Some (TextFile s)" and "0 < max_lines"
  shows "\<exists>ws. chunk_file_by_lines r file_path max_lines = (Inr (map concat ws), r) \<and>
           concat ws = lines_of s \<and> concat (map concat ws) = s \<and>
           (\<forall>w\<in>set ws. w \<noteq> [] \<and> int (length w) \<le> max_lines) \<and>
           (\<forall>w\<in>set (butlast ws). int (length w) = max_lines) \<and>
           (length (lines_of s) = 120 \<and> max_lines = 50 \<longrightarrow> map length ws = [50, 50, 20])"
proof -
  define n where "n = nat max_lines"
  define ws where "ws = windows n (lines_of s)"
  from assms(2) have n: "0 < n" and n_int: "int n = max_lines" by (simp_all add: n_def)
  have run: "chunk_file_by_lines r file_path max_lines = (Inr (map concat ws), r)"
    using assms(1)
    by (simp add: chunk_file_by_lines_def context_chunk_file_by_lines_def ws_def n_def)
  have cover: "concat ws = lines_of s"
    unfolding ws_def using n by (rule concat_windows)
  have whole: "concat (map concat ws) = s"
    by (simp add: concat_map_concat cover concat_lines_of)
  have bound: "\<forall>w\<in>set ws. w \<noteq> [] \<and> int (length w) \<le> max_lines"
  proof
    fix w assume "w \<in> set ws"
    then have "w \<noteq> [] \<and> length w \<le> n" unfolding ws_def by (rule windows_bounds)
    with n_int show "w \<noteq> [] \<and> int (length w) \<le> max_lines" by linarith
  qed
  have full: "\<forall>w\<in>set (butlast ws). int (length w) = max_lines"
  proof
    fix w assume "w \<in> set (butlast ws)"
    then have "length w = n" unfolding ws_def by (rule windows_full)
    with n_int show "int (length w) = max_lines" by simp
  qed
  have scen: "length (lines_of s) = 120 \<and> max_lines = 50 \<longrightarrow> map length ws = [50, 50, 20]"
  proof
    assume a: "length (lines_of s) = 120 \<and> max_lines = 50"
    then have n50: "n = 50" by (simp add: n_def)
    have "map length ws =
        replicate (length (lines_of s) div n) n @
          (if length (lines_of s) mod n = 0 then [] else [length (lines_of s) mod n])"
      unfolding ws_def using n by (rule windows_lengths)
    also have "\<dots> = replicate 2 50 @ [20]" using a by (simp add: n50)
    also have "\<dots> = [50, 50, 20]" by (simp add: numeral_2_eq_2)
    finally show "map length ws = [50, 50, 20]" .
  qed
  show ?thesis
    by (rule exI[of _ ws]) (intro conjI run cover whole bound full scen)
qed

theorem chunk_file_by_lines_windows_witness:
  "files demo_repo ''big.txt'' = Some (TextFile demo_big) \<and> (0::int) < 50 \<and>
   length (lines_of demo_big) = 120 \<and>
   (\<exists>ws. chunk_file_by_lines demo_repo ''big.txt'' 50 = (Inr (map concat ws), demo_repo) \<and>
      concat (map concat ws) = demo_big \<and> map length ws = [50, 50, 20])"
proof -
  have f: "files demo_repo ''big.txt'' = Some (TextFile demo_big)"
    by (simp add: demo_repo_def demo_files_def)
  have pos: "(0::int) < 50" by simp
  have len: "length (lines_of demo_big) = 120"
    by (simp add: demo_big_def lines_of_replicate)
  from chunk_file_by_lines_windows[OF f pos] len
  have "\<exists>ws. chunk_file_by_lines demo_repo ''big.txt'' 50 = (Inr (map concat ws), demo_repo) \<and>
      concat (map concat ws) = demo_big \<and> map length ws = [50, 50, 20]"
    by auto
  with f pos len show ?thesis by simp
qed

subsection \<open>Extracting symbols\<close>

text \<open>
  Claim C2. \<^verbatim>\<open>extract_symbols\<close> without a file path returns the symbol lists of
  the repo map \<^verbatim>\<open>get_repo_map\<close> hands over, concatenated in the order of the map's
  file keys. When no map is cached that map is the result of a full scan, which is
  cached; when one is cached it is used and nothing changes. With a file path the
  call is the mapper's parse of that single file: the result depends on that file
  alone and the repository, its cache included, is left as it was.
\<close>

theorem extract_symbols_concatenates_the_repo_map:
  "fst (mapper_get_repo_map C r) = [(''symbols'', SymbolsV (repo_symbols C r))] \<and>
   extract_symbols C r None =
     (Inr (concat (map snd (repo_symbols C r))), r\<lparr>mapper_cache := Some (repo_symbols C r)\<rparr>) \<and>
   (mapper_cache r = None \<longrightarrow> repo_symbols C r = scan_repo C r) \<and>
   (\<forall>sm. mapper_cache r = Some sm \<longrightarrow>
      repo_symbols C r = sm \<and> extract_symbols C r None = (Inr (concat (map snd sm)), r)) \<and>
   extract_symbols C r (Some p) = (mapper_extract_symbols C r p, r) \<and>
   (\<forall>r2. files r2 p = files r p \<longrightarrow>
      fst (extract_symbols C r2 (Some p)) = fst (extract_symbols C r (Some p)))"
proof -
  have cached: "repo_symbols C r = sm \<and> extract_symbols C r None = (Inr (concat (map snd sm)), r)"
    if "mapper_cache r = Some sm" for sm
  proof -
    from that have eq: "repo_symbols C r = sm" by (simp add: repo_symbols_def)
    from that have "r\<lparr>mapper_cache := Some sm\<rparr> = r" by simp
    with eq show ?thesis by (simp add: extract_symbols_None_eq)
  qed
  have single: "fst (extract_symbols C r2 (Some p)) = fst (extract_symbols C r (Some p))"
    if "files r2 p = files r p" for r2 :: "'a repository"
    using that by (simp add: extract_symbols_def mapper_extract_symbols_def)
  have handed: "fst (mapper_get_repo_map C r) = [(''symbols'', SymbolsV (repo_symbols C r))]"
    by (simp add: mapper_get_repo_map_eq)
  have scan: "mapper_cache r = None \<longrightarrow> repo_symbols C r = scan_repo C r"
    by (simp add: repo_symbols_def)
  have one: "extract_symbols C r (Some p) = (mapper_extract_symbols C r p, r)"
    by (simp add: extract_symbols_def)
  from cached have cached': "\<forall>sm. mapper_cache r = Some sm \<longrightarrow>
      repo_symbols C r = sm \<and> extract_symbols C r None = (Inr (concat (map snd sm)), r)"
    by blast
  from single have single': "\<forall>r2. files r2 p = files r p \<longrightarrow>
      fst (extract_symbols C r2 (Some p)) = fst (extract_symbols C r (Some p))"
    by blast
  show ?thesis
    by (intro conjI handed extract_symbols_None_eq scan cached' one single')
qed

theorem extract_symbols_concatenates_the_repo_map_witness:
  "mapper_cache demo_repo = None \<and>
   extract_symbols demo_collaborators demo_repo None =
     (Inr [demo_symbol], demo_repo\<lparr>mapper_cache := Some [(''a.py'', [demo_symbol])]\<rparr>) \<and>
   mapper_cache (demo_repo\<lparr>mapper_cache := Some [(''x.py'', [demo_symbol]), (''y.py'', []),
      (''z.py'', [[], demo_symbol])]\<rparr>) =
     Some [(''x.py'', [demo_symbol]), (''y.py'', []), (''z.py'', [[], demo_symbol])] \<and>
   extract_symbols demo_collaborators
     (demo_repo\<lparr>mapper_cache := Some [(''x.py'', [demo_symbol]), (''y.py'', []),
        (''z.py'', [[], demo_symbol])]\<rparr>) None =
     (Inr [demo_symbol, [], demo_symbol],
      demo_repo\<lparr>mapper_cache := Some [(''x.py'', [demo_symbol]), (''y.py'', []),
        (''z.py'', [[], demo_symbol])]\<rparr>) \<and>
   files (demo_repo\<lparr>in_scope := []\<rparr>) ''a.py'' = files demo_repo ''a.py'' \<and>
   fst (extract_symbols demo_collaborators (demo_repo\<lparr>in_scope := []\<rparr>) (Some ''a.py'')) =
     fst (extract_symbols demo_collaborators demo_repo (Some ''a.py''))"
proof -
  have c: "mapper_cache demo_repo = None" by (simp add: demo_repo_def)
  let ?sm = "[(''x.py'', [demo_symbol]), (''y.py'', []), (''z.py'', [[], demo_symbol])]"
  let ?r = "demo_repo\<lparr>mapper_cache := Some ?sm\<rparr>"
  have c2: "mapper_cache ?r = Some ?sm" by simp
  have f: "files (demo_repo\<lparr>in_scope := []\<rparr>) ''a.py'' = files demo_repo ''a.py''" by simp
  note t1 = extract_symbols_concatenates_the_repo_map[of demo_collaborators demo_repo "''a.py''"]
  note t2 = extract_symbols_concatenates_the_repo_map[of demo_collaborators ?r "''a.py''"]
  from t1 c have s: "repo_symbols demo_collaborators demo_repo = [(''a.py'', [demo_symbol])]"
    by (simp add: demo_scan)
  from t1 s have e1: "extract_symbols demo_collaborators demo_repo None =
     (Inr [demo_symbol], demo_repo\<lparr>mapper_cache := Some [(''a.py'', [demo_symbol])]\<rparr>)"
    by simp
  from t2 c2 have e2: "extract_symbols demo_collaborators ?r None =
     (Inr [demo_symbol, [], demo_symbol], ?r)"
    by simp
  from t1 f have e3: "fst (extract_symbols demo_collaborators (demo_repo\<lparr>in_scope := []\<rparr>)
      (Some ''a.py'')) = fst (extract_symbols demo_collaborators demo_repo (Some ''a.py''))"
    by blast
  from c e1 c2 e2 f e3 show ?thesis by (intro conjI)
qed

text \<open>
  Claim C10. With \<^verbatim>\<open>symbols=None\<close>, the list \<^verbatim>\<open>write_symbols\<close> hands to
  \<^verbatim>\<open>json.dump\<close> is the list \<^verbatim>\<open>extract_symbols\<close> without a file path returns
  (and both leave the same repository behind); where the output file can be opened,
  that list is what is written. The dictionary \<^verbatim>\<open>index\<close> returns holds the file
  tree of \<^verbatim>\<open>get_file_tree\<close> under both \<^verbatim>\<open>"file_tree"\<close> and \<^verbatim>\<open>"files"\<close>.
\<close>

theorem write_symbols_serialises_extract_symbols:
  "symbols_to_write C r None = extract_symbols C r None \<and>
   (writable r file_path \<longrightarrow>
      (\<exists>symbs. fst (extract_symbols C r None) = Inr symbs \<and>
         fst (write_symbols C r file_path None) = Inr () \<and>
         written (snd (write_symbols C r file_path None)) file_path = Some (DumpList symbs))) \<and>
   (\<exists>idx tree. fst (index C r) = Inr idx \<and> tree = fst (get_file_tree C r) \<and>
      py_item idx ''file_tree'' = Inr (TreeV tree) \<and> py_item idx ''files'' = Inr (TreeV tree))"
proof -
  have same: "symbols_to_write C r None = extract_symbols C r None"
    by (simp add: symbols_to_write_None_eq extract_symbols_None_eq)
  have dump: "\<exists>symbs. fst (extract_symbols C r None) = Inr symbs \<and>
         fst (write_symbols C r file_path None) = Inr () \<and>
         written (snd (write_symbols C r file_path None)) file_path = Some (DumpList symbs)"
    if "writable r file_path"
    using that
    by (simp add: write_symbols_def symbols_to_write_None_eq extract_symbols_None_eq open_w_def
        json_dump_def)
  have idx: "\<exists>idx tree. fst (index C r) = Inr idx \<and> tree = fst (get_file_tree C r) \<and>
      py_item idx ''file_tree'' = Inr (TreeV tree) \<and> py_item idx ''files'' = Inr (TreeV tree)"
    by (simp add: index_eq get_file_tree_def py_item_def)
  from same dump idx show ?thesis by blast
qed

theorem write_symbols_serialises_extract_symbols_witness:
  "writable demo_repo ''out.json'' \<and>
   fst (extract_symbols demo_collaborators demo_repo None) = Inr [demo_symbol] \<and>
   fst (write_symbols demo_collaborators demo_repo ''out.json'' None) = Inr () \<and>
   written (snd (write_symbols demo_collaborators demo_repo ''out.json'' None)) ''out.json'' =
     Some (DumpList [demo_symbol])"
proof -
  have w: "writable demo_repo ''out.json''" by (simp add: demo_repo_def)
  have c: "mapper_cache demo_repo = None" by (simp add: demo_repo_def)
  have e: "fst (extract_symbols demo_collaborators demo_repo None) = Inr [demo_symbol]"
    by (simp add: extract_symbols_None_eq repo_symbols_def c demo_scan)
  from write_symbols_serialises_extract_symbols[of demo_collaborators demo_repo "''out.json''"] w e
  show ?thesis by simp
qed

subsection \<open>Files that are not there, lines that are not there\<close>




text \<open>
  Claim C7. For an existing text file and a line number beyond its line count,
  \<^verbatim>\<open>extract_context_around_line\<close> returns \<^verbatim>\<open>None\<close>; it raises nothing and changes
  nothing.
\<close>

theorem line_past_the_end_gives_None:
  assumes "files r file_path = Some (TextFile s)" and "int (length (lines_of s)) < line"
  shows "extract_context_around_line C r file_path line = (Inr None, r)"
  using assms
  by (simp add: extract_context_around_line_def context_extract_context_around_line_def)

theorem line_past_the_end_gives_None_witness:
  "files demo_repo ''notes.txt'' = Some (TextFile (''call foo here'' @ [CHR 0x0A] @ ''nothing'')) \<and>
   int (length (lines_of (''call foo here'' @ [CHR 0x0A] @ ''nothing''))) < 3 \<and>
   extract_context_around_line demo_collaborators demo_repo ''notes.txt'' 3 = (Inr None, demo_repo) \<and>
   fst (extract_context_around_line demo_collaborators demo_repo ''notes.txt'' 2) =
     Inr (Some \<lparr>chunk_file = ''notes.txt'', chunk_start = 1, chunk_end = 2,
                chunk_content = ''call foo here'' @ [CHR 0x0A] @ ''nothing''\<rparr>)"
proof -
  have f: "files demo_repo ''notes.txt'' =
      Some (TextFile (''call foo here'' @ [CHR 0x0A] @ ''nothing''))"
    by (simp add: demo_repo_def demo_files_def)
  have n: "int (length (lines_of (''call foo here'' @ [CHR 0x0A] @ ''nothing''))) < 3"
    by simp
  have inside: "fst (extract_context_around_line demo_collaborators demo_repo ''notes.txt'' 2) =
     Inr (Some \<lparr>chunk_file = ''notes.txt'', chunk_start = 1, chunk_end = 2,
                chunk_content = ''call foo here'' @ [CHR 0x0A] @ ''nothing''\<rparr>)"
    by (simp add: extract_context_around_line_def context_extract_context_around_line_def
        window_chunk_def demo_repo_def demo_files_def demo_collaborators_def)
  from line_past_the_end_gives_None[OF f n, of demo_collaborators] f n inside
  show ?thesis by (intro conjI)
qed

end
